theory Spec2Isabelle
  imports Main "HOL-Library.Sublist" "HOL-Library.AList"
begin

section \<open>Data model\<close>

text \<open>
  The token kinds of \<^verbatim>\<open>class TokenType(Enum)\<close>, in the order of the source.
\<close>

datatype TokenType =
    COMMENT | IRONMAN | BATMAN | SUPERMAN | WONDERWOMAN | FLASH | SPIDERMAN | THOR
  | THORNUM | HULK | DOCTORSTRANGE | BLACKPANTHER | CAPTAINAMERICA | VISION | STARLORD
  | DEADPOOL | LOKI | FALCON | HAWKEYE | THANOS | ADD | SUB | IDENTIFIER | STRING
  | NUMBER | OPERATOR | EMPTY | INTO | CELL_REF

text \<open>
  Python values that the compiler stores in token payloads, instruction fields and
  table entries: \<^verbatim>\<open>None\<close>, an unbounded integer, or a string.
\<close>

datatype pyval = PNone | PInt int | PStr string

text \<open>
  \<^verbatim>\<open>class Token\<close>: kind, payload and 1-based line number. The attribute
  \<^verbatim>\<open>indentation\<close> is set by the lexer on the first token of a line only; on every
  other token it does not exist (\<open>None\<close> here), and the resolver reads it with
  \<^verbatim>\<open>getattr(tok, 'indentation', 0)\<close>.
\<close>

record token =
  ttype :: TokenType
  tvalue :: pyval
  line_number :: nat
  indentation :: "nat option"

definition Token :: "TokenType \<Rightarrow> pyval \<Rightarrow> nat \<Rightarrow> token" where
  "Token ty v n = \<lparr>ttype = ty, tvalue = v, line_number = n, indentation = None\<rparr>"

text \<open>
  Every way the compiler stops before producing output: the three \<^verbatim>\<open>sys.exit(1)\<close>
  of the lexer, the two of the instruction builder, and the \<^verbatim>\<open>AttributeError\<close> that
  Python raises when \<^verbatim>\<open>.endswith\<close> is called on a payload that is not a string.
\<close>

datatype error =
    UnclosedString nat
  | InvalidCellReference string nat
  | InvalidOperator string nat
  | ExpectedArrayName nat
  | ExpectedString nat
  | AttributeError

section \<open>Python string primitives\<close>

text \<open>
  Source text is modelled as a list of 8-bit characters and classified as Python classifies
  the ASCII range: \<^verbatim>\<open>str.isspace\<close> holds for tab, line feed, vertical tab, form
  feed, carriage return, the four separators 0x1C to 0x1F and the blank.
  Characters beyond ASCII belong to none of the classes here.
\<close>

definition isspace :: "char \<Rightarrow> bool" where
  "isspace c \<longleftrightarrow>
     c \<in> set [CHR 0x09, CHR 0x0A, CHR 0x0B, CHR 0x0C, CHR 0x0D,
               CHR 0x1C, CHR 0x1D, CHR 0x1E, CHR 0x1F, CHR 0x20]"

definition isdigit :: "char \<Rightarrow> bool" where
  "isdigit c \<longleftrightarrow> c \<in> set ''0123456789''"

definition isalpha :: "char \<Rightarrow> bool" where
  "isalpha c \<longleftrightarrow> c \<in> set ''abcdefghijklmnopqrstuvwxyzABCDEFGHIJKLMNOPQRSTUVWXYZ''"

definition isalnum :: "char \<Rightarrow> bool" where
  "isalnum c \<longleftrightarrow> isalpha c \<or> isdigit c"

definition lstrip :: "string \<Rightarrow> string" where
  "lstrip s = dropWhile isspace s"

definition strip :: "string \<Rightarrow> string" where
  "strip s = rev (dropWhile isspace (rev (dropWhile isspace s)))"

text \<open>\<^verbatim>\<open>sub in s\<close> for strings: \<open>sub\<close> occurs in \<open>s\<close> as a contiguous run.\<close>

fun contains :: "string \<Rightarrow> string \<Rightarrow> bool" where
  "contains sub [] = (sub = [])"
| "contains sub (c # cs) = (prefix sub (c # cs) \<or> contains sub cs)"

text \<open>\<^verbatim>\<open>code.split('\n')\<close>: always at least one piece, the last one possibly empty.\<close>

fun split_lines :: "string \<Rightarrow> string list" where
  "split_lines [] = [[]]"
| "split_lines (c # cs) =
     (if c = CHR 0x0A then [] # split_lines cs
      else (case split_lines cs of
              l # ls \<Rightarrow> (c # l) # ls
            | [] \<Rightarrow> [[c]]))"

text \<open>\<^verbatim>\<open>"\n".join(chunks)\<close>.\<close>

fun join_lines :: "string list \<Rightarrow> string" where
  "join_lines [] = []"
| "join_lines [l] = l"
| "join_lines (l # ls) = l @ [CHR 0x0A] @ join_lines ls"

text \<open>
  Decimal digits: the value of a digit character is its position in the digit string, and
  the character of a digit below ten is the character at that position.
\<close>

definition digit_val :: "char \<Rightarrow> nat" where
  "digit_val c = length (takeWhile (\<lambda>d. d \<noteq> c) ''0123456789'') mod 10"

definition digit_char :: "nat \<Rightarrow> char" where
  "digit_char d = ''0123456789'' ! (d mod 10)"

text \<open>
  \<^verbatim>\<open>int(s)\<close> on a run of ASCII digits (the lexer's number literal): base ten, leading
  zeros accepted, no bound on the value. The limit that recent CPython versions put on the
  number of digits of such a text is not part of the model.
\<close>

definition int_of_digits :: "string \<Rightarrow> int" where
  "int_of_digits s = int (foldl (\<lambda>a c. 10 * a + digit_val c) 0 s)"

text \<open>
  \<^verbatim>\<open>int(s)\<close> on the text after the sigil of a cell reference. That text holds only
  letters, digits, underscores and sigils; Python accepts it when it is one or more digit
  groups separated by single underscores, and raises \<^verbatim>\<open>ValueError\<close> otherwise.
\<close>

fun valid_int_literal :: "string \<Rightarrow> bool" where
  "valid_int_literal [] = False"
| "valid_int_literal [c] = isdigit c"
| "valid_int_literal (c # d # cs) =
     (isdigit c \<and> (if d = CHR ''_'' then valid_int_literal cs else valid_int_literal (d # cs)))"

definition py_int :: "string \<Rightarrow> int option" where
  "py_int s =
     (if valid_int_literal s then Some (int_of_digits (filter (\<lambda>c. c \<noteq> CHR ''_'') s))
      else None)"

text \<open>\<^verbatim>\<open>str(n)\<close> for an integer and \<^verbatim>\<open>str(v)\<close>, the text an f-string inserts for a value.\<close>

fun str_of_nat :: "nat \<Rightarrow> string" where
  "str_of_nat n =
     (if n < 10 then [digit_char n] else str_of_nat (n div 10) @ [digit_char (n mod 10)])"

definition str_of_int :: "int \<Rightarrow> string" where
  "str_of_int i = (if i < 0 then CHR ''-'' # str_of_nat (nat (- i)) else str_of_nat (nat i))"

fun py_str :: "pyval \<Rightarrow> string" where
  "py_str PNone = ''None''"
| "py_str (PInt i) = str_of_int i"
| "py_str (PStr s) = s"

text \<open>Truthiness of a value, as \<^verbatim>\<open>if name:\<close> tests it.\<close>

fun truthy :: "pyval \<Rightarrow> bool" where
  "truthy PNone = False"
| "truthy (PInt i) = (i \<noteq> 0)"
| "truthy (PStr s) = (s \<noteq> [])"

section \<open>Lexer\<close>

text \<open>The keyword table and the operator table of \<^verbatim>\<open>SuperHeroLexer.__init__\<close>.\<close>

definition keywords_map :: "(string \<times> TokenType) list" where
  "keywords_map =
     [(''ironman'', IRONMAN), (''batman'', BATMAN), (''superman'', SUPERMAN),
      (''wonderwoman'', WONDERWOMAN), (''flash'', FLASH), (''spiderman'', SPIDERMAN),
      (''thor'', THOR), (''thornum'', THORNUM), (''hulk'', HULK),
      (''doctorstrange'', DOCTORSTRANGE), (''blackpanther'', BLACKPANTHER),
      (''captainamerica'', CAPTAINAMERICA), (''vision'', VISION), (''starlord'', STARLORD),
      (''deadpool'', DEADPOOL), (''loki'', LOKI), (''falcon'', FALCON),
      (''hawkeye'', HAWKEYE), (''thanos'', THANOS), (''add'', ADD), (''sub'', SUB),
      (''into'', INTO), (''empty'', EMPTY)]"

definition operators :: "(string \<times> string) list" where
  "operators =
     [(''>'', ''>''), (''<'', ''<''), (''='', ''==''), (''=='', ''==''),
      (''!='', ''!=''), (''>='', ''>=''), (''<='', ''<='')]"

text \<open>
  The inner loop of a string literal, entered after the opening quote. It walks to the
  first double quote that is not the second character of a backslash pair and returns the
  raw text before it and the text after it, or \<open>None\<close> when the line ends first.
  A backslash that is the last character of the line is stepped over alone.
\<close>

fun scan_string :: "string \<Rightarrow> (string \<times> string) option" where
  "scan_string [] = None"
| "scan_string [c] = (if c = CHR 0x22 then Some ([], []) else None)"
| "scan_string (c # d # cs) =
     (if c = CHR 0x22 then Some ([], d # cs)
      else if c = CHR 0x5C then
        (case scan_string cs of
           None \<Rightarrow> None
         | Some (v, rest) \<Rightarrow> Some (c # d # v, rest))
      else
        (case scan_string (d # cs) of
           None \<Rightarrow> None
         | Some (v, rest) \<Rightarrow> Some (c # v, rest)))"

lemma scan_string_length:
  "scan_string s = Some (v, rest) \<Longrightarrow> length rest < length s"
  by (induction s arbitrary: v rest rule: scan_string.induct)
     (auto split: if_splits option.splits)


definition word_char :: "char \<Rightarrow> bool" where
  "word_char c \<longleftrightarrow> isalnum c \<or> c = CHR ''_'' \<or> c = CHR ''#''"

text \<open>
  The \<^verbatim>\<open>while i < len(line)\<close> loop over one line: the characters from position \<open>i\<close>
  on, the line's number and the tokens of the line so far.
\<close>

function scan_line :: "nat \<Rightarrow> string \<Rightarrow> token list \<Rightarrow> error + token list" where
  "scan_line line_num [] line_tokens = Inr line_tokens"
| "scan_line line_num (c # cs) line_tokens =
     (if isspace c then scan_line line_num cs line_tokens
      else if c = CHR 0x22 then
        (case scan_string cs of
           Some (string_value, rest) \<Rightarrow>
             scan_line line_num rest (line_tokens @ [Token STRING (PStr string_value) line_num])
         | None \<Rightarrow> Inl (UnclosedString line_num))
      else if isdigit c then
        scan_line line_num (dropWhile isdigit (c # cs))
          (line_tokens @ [Token NUMBER (PInt (int_of_digits (takeWhile isdigit (c # cs)))) line_num])
      else if isalpha c \<or> c = CHR ''_'' \<or> c = CHR ''#'' then
        (let word = takeWhile word_char (c # cs); rest = dropWhile word_char (c # cs) in
         if prefix ''#'' word then
           (case py_int (tl word) of
              Some cell_num \<Rightarrow>
                scan_line line_num rest (line_tokens @ [Token CELL_REF (PInt cell_num) line_num])
            | None \<Rightarrow> Inl (InvalidCellReference word line_num))
         else
           (case map_of keywords_map word of
              Some kw \<Rightarrow> scan_line line_num rest (line_tokens @ [Token kw (PStr word) line_num])
            | None \<Rightarrow>
                scan_line line_num rest (line_tokens @ [Token IDENTIFIER (PStr word) line_num])))
      else if c \<in> set ''<>=!'' then
        (let (op, rest) =
               (case cs of
                  d # ds \<Rightarrow> if d = CHR ''='' then ([c, d], ds) else ([c], cs)
                | [] \<Rightarrow> ([c], [])) in
         case map_of operators op of
           Some norm \<Rightarrow> scan_line line_num rest (line_tokens @ [Token OPERATOR (PStr norm) line_num])
         | None \<Rightarrow> Inl (InvalidOperator op line_num))
      else if c = CHR '':'' then
        scan_line line_num cs (line_tokens @ [Token IDENTIFIER (PStr '':'') line_num])
      else scan_line line_num cs line_tokens)"
  by pat_completeness auto
termination
proof (relation "measure (\<lambda>(n, s, ts). length s)")
  show "wf (measure (\<lambda>(n, s, ts). length s))" by simp
next
  fix line_num :: nat and c :: char and cs :: string and line_tokens :: "token list"
    and x2 :: "string \<times> string" and string_value rest :: string
  assume "scan_string cs = Some x2" "(string_value, rest) = x2"
  then show "((line_num, rest, line_tokens @ [Token STRING (PStr string_value) line_num]),
              line_num, c # cs, line_tokens) \<in> measure (\<lambda>(n, s, ts). length s)"
    using scan_string_length [of cs string_value rest] by simp
next
  fix line_num :: nat and c :: char and cs :: string and line_tokens :: "token list"
  assume "isdigit c"
  then show "((line_num, dropWhile isdigit (c # cs),
               line_tokens @ [Token NUMBER (PInt (int_of_digits (takeWhile isdigit (c # cs)))) line_num]),
              line_num, c # cs, line_tokens) \<in> measure (\<lambda>(n, s, ts). length s)"
    by (simp add: less_Suc_eq_le length_dropWhile_le)
qed (auto simp: less_Suc_eq_le length_dropWhile_le word_char_def isalnum_def
      split: list.splits if_splits)

text \<open>
  \<^verbatim>\<open>line_tokens[0].indentation = indentation // 4\<close>: only the first token of the
  line receives the attribute.
\<close>

fun set_indentation :: "nat \<Rightarrow> token list \<Rightarrow> token list" where
  "set_indentation k [] = []"
| "set_indentation k (t # ts) = t\<lparr>indentation := Some k\<rparr> # ts"

text \<open>
  The \<^verbatim>\<open>for line_num, line in enumerate(lines, 1)\<close> loop of \<^verbatim>\<open>tokenize\<close>, with its
  state: the block-comment flag, the number of the line at hand, the lines left and the
  tokens collected. The first fatal error ends the run.
\<close>

fun lex_lines :: "bool \<Rightarrow> nat \<Rightarrow> string list \<Rightarrow> token list \<Rightarrow> error + token list" where
  "lex_lines multiline_comment line_num [] tokens = Inr tokens"
| "lex_lines multiline_comment line_num (line # lines) tokens =
     (if strip line = [] then lex_lines multiline_comment (line_num + 1) lines tokens
      else if multiline_comment then
        (if contains ''*heroes'' line then lex_lines False (line_num + 1) lines tokens
         else lex_lines True (line_num + 1) lines tokens)
      else if contains ''heroes*'' line \<and> \<not> contains ''*heroes'' line then
        lex_lines True (line_num + 1) lines tokens
      else if prefix ''hero>'' (strip line) then
        lex_lines False (line_num + 1) lines tokens
      else
        (let indentation = length line - length (lstrip line) in
         case scan_line line_num (drop indentation line) [] of
           Inl e \<Rightarrow> Inl e
         | Inr line_tokens \<Rightarrow>
             lex_lines False (line_num + 1) lines
               (tokens @ set_indentation (indentation div 4) line_tokens)))"

definition tokenize :: "string \<Rightarrow> error + token list" where
  "tokenize code = lex_lines False 1 (split_lines code) []"

section \<open>Parser\<close>

text \<open>
  The three tables of \<^verbatim>\<open>SuperHeroParser\<close>: the label set, the loop table and the array
  table. The two dictionaries keep insertion order, and assigning to a key that is present
  replaces its value in place, which is what \<open>AList.update\<close> does.
\<close>

record parser_tables =
  labels :: "pyval set"
  flashes :: "(pyval \<times> token list) list"
  doctorstranges :: "(pyval \<times> pyval) list"

definition init_tables :: parser_tables where
  "init_tables = \<lparr>labels = {}, flashes = [], doctorstranges = []\<rparr>"

text \<open>
  \<^verbatim>\<open>if name.endswith(':'): name = name[:-1]\<close>. On a payload that is not a string the
  method does not exist and Python raises.
\<close>

fun strip_colon :: "pyval \<Rightarrow> error + pyval" where
  "strip_colon (PStr s) = Inr (PStr (if suffix '':'' s then butlast s else s))"
| "strip_colon v = Inl AttributeError"

text \<open>
  The test that ends the capture of a loop body: a label or loop keyword whose recorded
  indentation is 0, where a token without the attribute counts as 0.
\<close>

definition body_end :: "token \<Rightarrow> bool" where
  "body_end t \<longleftrightarrow>
     ttype t \<in> set [FALCON, FLASH] \<and> (case indentation t of None \<Rightarrow> 0 | Some k \<Rightarrow> k) = 0"

text \<open>
  \<^verbatim>\<open>first_pass\<close>: the \<^verbatim>\<open>while i < len(self.tokens)\<close> loop, on the tokens from
  position \<open>i\<close> on. The label branch adds 2 to \<open>i\<close> and then runs into the
  \<^verbatim>\<open>i += 1\<close> that ends the loop body, as the array branch and the plain case do; only
  the loop-definition branch leaves through \<^verbatim>\<open>continue\<close>.
\<close>

function first_pass :: "token list \<Rightarrow> parser_tables \<Rightarrow> error + parser_tables" where
  "first_pass [] st = Inr st"
| "first_pass (tok # rest) st =
     (if ttype tok = FALCON then
        (case rest of
           nxt # _ \<Rightarrow>
             if ttype nxt = IDENTIFIER then
               (case strip_colon (tvalue nxt) of
                  Inl e \<Rightarrow> Inl e
                | Inr label_name \<Rightarrow>
                    first_pass (drop (2 + 1) (tok # rest))
                      (st\<lparr>labels := insert label_name (labels st)\<rparr>))
             else first_pass (drop (2 + 1) (tok # rest)) st
         | [] \<Rightarrow> first_pass (drop (2 + 1) (tok # rest)) st)
      else if ttype tok = FLASH then
        (case rest of
           nxt # body \<Rightarrow>
             if ttype nxt = IDENTIFIER then
               (case strip_colon (tvalue nxt) of
                  Inl e \<Rightarrow> Inl e
                | Inr flash_name \<Rightarrow>
                    first_pass (dropWhile (\<lambda>t. \<not> body_end t) body)
                      (st\<lparr>flashes :=
                           AList.update flash_name (takeWhile (\<lambda>t. \<not> body_end t) body)
                             (flashes st)\<rparr>))
             else first_pass rest st
         | [] \<Rightarrow> first_pass rest st)
      else if ttype tok = DOCTORSTRANGE then
        (case rest of
           nxt # after \<Rightarrow>
             (let (size, name) =
                    (if ttype nxt = NUMBER then
                       (tvalue nxt,
                        (case after of
                           nxt2 # _ \<Rightarrow> if ttype nxt2 = IDENTIFIER then tvalue nxt2 else PNone
                         | [] \<Rightarrow> PNone))
                     else if ttype nxt = IDENTIFIER then (PNone, tvalue nxt)
                     else (PNone, PNone)) in
              first_pass rest
                (if truthy name
                 then st\<lparr>doctorstranges := AList.update name size (doctorstranges st)\<rparr>
                 else st))
         | [] \<Rightarrow> first_pass rest st)
      else first_pass rest st)"
  by pat_completeness auto
termination
  by (relation "measure (\<lambda>(ts, st). length ts)")
     (auto simp: less_Suc_eq_le length_dropWhile_le le_SucI)

text \<open>
  The instructions: one constructor for each value of the \<^verbatim>\<open>"type"\<close> key of the
  dictionaries that \<^verbatim>\<open>parse_statement\<close> returns, with that dictionary's other entries as
  arguments in the order of the source.
\<close>

datatype node =
    Ironman
  | Batman
  | Superman
  | Wonderwoman
  | Thor
  | Thornum
  | Hulk "pyval list"  \<comment> \<open>args\<close>
  | Doctorstrange pyval pyval  \<comment> \<open>name, size\<close>
  | Blackpanther pyval pyval  \<comment> \<open>target, content\<close>
  | Captainamerica pyval  \<comment> \<open>target\<close>
  | Starlord pyval  \<comment> \<open>text\<close>
  | Deadpool
  | Loki
  | Falcon pyval  \<comment> \<open>name\<close>
  | Hawkeye pyval  \<comment> \<open>target\<close>
  | Spiderman pyval pyval pyval pyval  \<comment> \<open>target, left, op, right\<close>
  | Add pyval pyval bool bool  \<comment> \<open>left, right, left_is_cell, right_is_cell\<close>
  | Sub pyval pyval bool bool  \<comment> \<open>left, right, left_is_cell, right_is_cell\<close>
  | Thanos
  | Flash_call pyval  \<comment> \<open>name\<close>

text \<open>\<^verbatim>\<open>check\<close>: the token at hand exists and has the given kind.\<close>

fun check :: "token list \<Rightarrow> TokenType \<Rightarrow> bool" where
  "check [] ty = False"
| "check (t # ts) ty = (ttype t = ty)"

text \<open>
  The recurring step \<^verbatim>\<open>if self.check(ty): v = self.advance().value\<close>: the payload of the
  token at hand when it has the kind, else the default, with the tokens left.
\<close>

fun accept :: "TokenType \<Rightarrow> pyval \<Rightarrow> token list \<Rightarrow> pyval \<times> token list" where
  "accept ty dflt [] = (dflt, [])"
| "accept ty dflt (t # ts) = (if ttype t = ty then (tvalue t, ts) else (dflt, t # ts))"

text \<open>The left and right operand of a conditional jump, and an operand of add and subtract.\<close>

fun spiderman_left :: "token list \<Rightarrow> pyval \<times> token list" where
  "spiderman_left [] = (PNone, [])"
| "spiderman_left (t # ts) =
     (if ttype t = VISION then (PStr ''vision'', ts)
      else if ttype t = NUMBER then (tvalue t, ts)
      else (PNone, t # ts))"

fun spiderman_right :: "token list \<Rightarrow> pyval \<times> token list" where
  "spiderman_right [] = (PNone, [])"
| "spiderman_right (t # ts) =
     (if ttype t = EMPTY then (PStr ''empty'', ts)
      else if ttype t = NUMBER then (tvalue t, ts)
      else if ttype t = VISION then (PStr ''vision'', ts)
      else (PNone, t # ts))"

fun arith_left :: "token list \<Rightarrow> (pyval \<times> bool) \<times> token list" where
  "arith_left [] = ((PNone, False), [])"
| "arith_left (t # ts) =
     (if ttype t = VISION then ((PStr ''vision'', False), ts)
      else if ttype t = NUMBER then ((tvalue t, False), ts)
      else if ttype t = CELL_REF then ((tvalue t, True), ts)
      else ((PNone, False), t # ts))"

fun arith_right :: "token list \<Rightarrow> (pyval \<times> bool) \<times> token list" where
  "arith_right [] = ((PNone, False), [])"
| "arith_right (t # ts) =
     (if ttype t = NUMBER then ((tvalue t, False), ts)
      else if ttype t = VISION then ((PStr ''vision'', False), ts)
      else if ttype t = CELL_REF then ((tvalue t, True), ts)
      else ((PNone, False), t # ts))"

text \<open>
  \<^verbatim>\<open>parse_statement\<close> on the tokens from \<^verbatim>\<open>self.current\<close> on: the instruction built, if
  any, and the tokens left, or the fatal error. The argument \<open>fl\<close> is the loop table.
\<close>

fun parse_statement ::
  "(pyval \<times> token list) list \<Rightarrow> token list \<Rightarrow> error + (node option \<times> token list)" where
  "parse_statement fl [] = Inr (None, [])"
| "parse_statement fl (tok # ts) =
     (if ttype tok = IRONMAN then Inr (Some Ironman, ts)
      else if ttype tok = BATMAN then Inr (Some Batman, ts)
      else if ttype tok = SUPERMAN then Inr (Some Superman, ts)
      else if ttype tok = WONDERWOMAN then Inr (Some Wonderwoman, ts)
      else if ttype tok = THOR then Inr (Some Thor, ts)
      else if ttype tok = THORNUM then Inr (Some Thornum, ts)
      else if ttype tok = HULK then
        (if check ts STRING \<or> check ts NUMBER
         then Inr (Some (Hulk [tvalue (hd ts)]), tl ts)
         else Inr (Some (Hulk []), ts))
      else if ttype tok = DOCTORSTRANGE then
        (let (size, ts1) = accept NUMBER PNone ts in
         if check ts1 IDENTIFIER
         then Inr (Some (Doctorstrange (tvalue (hd ts1)) size), tl ts1)
         else Inl (ExpectedArrayName (line_number tok)))
      else if ttype tok = BLACKPANTHER then
        (let (target, ts1) =
               (if check ts INTO then
                  (let ts0 = tl ts in
                   if check ts0 IDENTIFIER then accept IDENTIFIER PNone ts0
                   else accept NUMBER PNone ts0)
                else (PNone, ts));
             (content, ts2) = accept STRING PNone ts1 in
         Inr (Some (Blackpanther target content), ts2))
      else if ttype tok = CAPTAINAMERICA then
        (let (target, ts1) = accept IDENTIFIER PNone ts in
         Inr (Some (Captainamerica target), ts1))
      else if ttype tok = STARLORD then
        (if check ts STRING then Inr (Some (Starlord (tvalue (hd ts))), tl ts)
         else Inl (ExpectedString (line_number tok)))
      else if ttype tok = DEADPOOL then Inr (Some Deadpool, ts)
      else if ttype tok = LOKI then Inr (Some Loki, ts)
      else if ttype tok = FALCON then
        (if check ts IDENTIFIER then
           (case strip_colon (tvalue (hd ts)) of
              Inl e \<Rightarrow> Inl e
            | Inr name \<Rightarrow> Inr (Some (Falcon name), tl ts))
         else Inr (Some (Falcon PNone), ts))
      else if ttype tok = HAWKEYE then
        (let (target, ts1) = accept IDENTIFIER PNone ts in
         Inr (Some (Hawkeye target), ts1))
      else if ttype tok = SPIDERMAN then
        (let (target, ts1) = accept IDENTIFIER PNone ts;
             (left, ts2) = spiderman_left ts1;
             (op, ts3) = accept OPERATOR PNone ts2;
             (right, ts4) = spiderman_right ts3 in
         Inr (Some (Spiderman target left op right), ts4))
      else if ttype tok = ADD \<or> ttype tok = SUB then
        (let ((left, left_is_cell), ts1) = arith_left ts;
             ((right, right_is_cell), ts2) = arith_right ts1 in
         Inr (Some ((if ttype tok = ADD then Add else Sub) left right left_is_cell right_is_cell),
              ts2))
      else if ttype tok = THANOS then Inr (Some Thanos, ts)
      else if ttype tok = IDENTIFIER then
        (if map_of fl (tvalue tok) \<noteq> None then Inr (Some (Flash_call (tvalue tok)), ts)
         else Inr (None, ts))
      else Inr (None, ts))"

lemma accept_length: "accept ty d ts = (v, rest) \<Longrightarrow> length rest \<le> length ts"
  by (cases ts) (auto split: if_splits)

lemma spiderman_left_length: "spiderman_left ts = (v, rest) \<Longrightarrow> length rest \<le> length ts"
  by (cases ts) (auto split: if_splits)

lemma spiderman_right_length: "spiderman_right ts = (v, rest) \<Longrightarrow> length rest \<le> length ts"
  by (cases ts) (auto split: if_splits)

lemma arith_left_length: "arith_left ts = (v, rest) \<Longrightarrow> length rest \<le> length ts"
  by (cases ts) (auto split: if_splits)

lemma arith_right_length: "arith_right ts = (v, rest) \<Longrightarrow> length rest \<le> length ts"
  by (cases ts) (auto split: if_splits)

lemma parse_statement_length:
  assumes "parse_statement fl (tok # ts) = Inr (nd, rest)"
  shows "length rest \<le> length ts"
proof -
  have tl_le: "\<And>xs :: token list. length (tl xs) \<le> length xs" by simp
  show ?thesis
    using assms
    by (auto simp: Let_def split: if_splits prod.splits sum.splits
        dest!: accept_length spiderman_left_length spiderman_right_length
               arith_left_length arith_right_length
        intro: le_trans [OF _ tl_le])
qed

text \<open>
  The loop of \<^verbatim>\<open>parse\<close> after the first pass: statements are parsed until the tokens
  are used up, and every statement that is not \<^verbatim>\<open>None\<close> is appended.
\<close>

function parse_loop ::
  "(pyval \<times> token list) list \<Rightarrow> token list \<Rightarrow> error + node list" where
  "parse_loop fl [] = Inr []"
| "parse_loop fl (tok # ts) =
     (case parse_statement fl (tok # ts) of
        Inl e \<Rightarrow> Inl e
      | Inr (statement, rest) \<Rightarrow>
          (case parse_loop fl rest of
             Inl e \<Rightarrow> Inl e
           | Inr code_blocks \<Rightarrow>
               Inr (case statement of
                      None \<Rightarrow> code_blocks
                    | Some s \<Rightarrow> s # code_blocks)))"
  by pat_completeness auto
termination
  by (relation "measure (\<lambda>(fl, ts). length ts)")
     (auto simp: less_Suc_eq_le simp del: parse_statement.simps dest: parse_statement_length)

text \<open>\<^verbatim>\<open>parse\<close>: the first pass, then the statements; the tables stay with the parser.\<close>

definition parse :: "token list \<Rightarrow> error + (node list \<times> parser_tables)" where
  "parse tokens =
     (case first_pass tokens init_tables of
        Inl e \<Rightarrow> Inl e
      | Inr st \<Rightarrow>
          (case parse_loop (flashes st) tokens of
             Inl e \<Rightarrow> Inl e
           | Inr ast \<Rightarrow> Inr (ast, st)))"

section \<open>Code generator\<close>

text \<open>\<^verbatim>\<open>indent\<close>: four blanks for each level.\<close>

definition indent :: "nat \<Rightarrow> string" where
  "indent indent_level = concat (replicate indent_level ''    '')"

text \<open>
  \<^verbatim>\<open>generate_node\<close>: the lines one instruction appends to the output, at an indentation
  level and with the array table. No branch raises or exits.
\<close>

fun generate_node :: "nat \<Rightarrow> (pyval \<times> pyval) list \<Rightarrow> node \<Rightarrow> string list" where
  "generate_node lvl ds Ironman = [indent lvl @ ''tape[ptr]++;'']"
| "generate_node lvl ds Batman = [indent lvl @ ''tape[ptr]--;'']"
| "generate_node lvl ds Superman = [indent lvl @ ''ptr++;'']"
| "generate_node lvl ds Wonderwoman = [indent lvl @ ''ptr--;'']"
| "generate_node lvl ds (Hulk args) =
     (case args of
        PInt i # _ \<Rightarrow> [indent lvl @ ''hulk('' @ str_of_int i @ '', 0);'']
      | PStr s # _ \<Rightarrow> [indent lvl @ ''hulk(-1, '' @ [CHR 0x27] @ s @ [CHR 0x27] @ '');'']
      | _ \<Rightarrow> [indent lvl @ ''hulk(-1, 0);''])"
| "generate_node lvl ds Thor = [indent lvl @ ''thor();'']"
| "generate_node lvl ds Thornum = [indent lvl @ ''thornum();'']"
| "generate_node lvl ds (Starlord text) =
     [indent lvl @ ''printf('' @ [CHR 0x22] @ py_str text @ [CHR 0x5C] @ ''n'' @ [CHR 0x22] @ '');'']"
| "generate_node lvl ds Deadpool = [indent lvl @ ''ptr = 0;'']"
| "generate_node lvl ds Loki =
     [indent lvl @ ''tape[ptr] = 0;'',
      indent lvl @ ''printf('' @ [CHR 0x22] @ ''Loki cleared cell %d'' @ [CHR 0x5C] @ ''n''
        @ [CHR 0x22] @ '', ptr);'']"
| "generate_node lvl ds (Falcon name) =
     [take (length (indent lvl) - 4) (indent lvl) @ py_str name @ '':'']"
| "generate_node lvl ds (Hawkeye target) = [indent lvl @ ''goto '' @ py_str target @ '';'']"
| "generate_node lvl ds (Spiderman target left op right) =
     (let left_expr = (if left = PStr ''vision'' then ''tape[ptr]'' else py_str left);
          right_expr = (if right = PStr ''empty'' then ''0''
                        else if right = PStr ''vision'' then ''tape[ptr]''
                        else py_str right) in
      [indent lvl @ ''if ('' @ left_expr @ '' '' @ py_str op @ '' '' @ right_expr @ '') {'',
       indent lvl @ ''    goto '' @ py_str target @ '';'',
       indent lvl @ ''}''])"
| "generate_node lvl ds (Add left right left_is_cell right_is_cell) =
     (let left_expr = (if left = PStr ''vision'' then ''tape[ptr]''
                       else if left_is_cell then ''tape['' @ py_str left @ '']''
                       else ''tape['' @ py_str left @ '']'');
          right_expr = (if right = PStr ''vision'' then ''tape[ptr]''
                        else if right_is_cell then ''tape['' @ py_str right @ '']''
                        else py_str right) in
      [indent lvl @ left_expr @ '' += '' @ right_expr @ '';''])"
| "generate_node lvl ds (Sub left right left_is_cell right_is_cell) =
     (let left_expr = (if left = PStr ''vision'' then ''tape[ptr]''
                       else if left_is_cell then ''tape['' @ py_str left @ '']''
                       else ''tape['' @ py_str left @ '']'');
          right_expr = (if right = PStr ''vision'' then ''tape[ptr]''
                        else if right_is_cell then ''tape['' @ py_str right @ '']''
                        else py_str right) in
      [indent lvl @ left_expr @ '' -= '' @ right_expr @ '';''])"
| "generate_node lvl ds (Doctorstrange name array_size) = []"
| "generate_node lvl ds (Blackpanther target content) =
     (let target_expr =
            (if target = PNone then ''tape + ptr''
             else if (case target of PStr _ \<Rightarrow> True | _ \<Rightarrow> False) \<and> map_of ds target \<noteq> None
             then ''doctorstrange_'' @ py_str target
             else ''tape + '' @ py_str target);
          content_expr =
            (if content \<noteq> PNone then [CHR 0x22] @ py_str content @ [CHR 0x22] else ''NULL'') in
      [indent lvl @ ''blackpanther('' @ target_expr @ '', '' @ content_expr @ '');''])"
| "generate_node lvl ds (Captainamerica target) =
     (let source_expr =
            (if target = PNone then ''tape + ptr''
             else if map_of ds target \<noteq> None then ''doctorstrange_'' @ py_str target
             else ''tape + ptr'') in
      [indent lvl @ ''captainamerica('' @ source_expr @ '');''])"
| "generate_node lvl ds (Flash_call name) = [indent lvl @ ''// Flash loop: '' @ py_str name]"
| "generate_node lvl ds Thanos =
     [indent lvl @ ''printf('' @ [CHR 0x22] @ ''Thanos snapped his fingers...'' @ [CHR 0x5C]
        @ ''n'' @ [CHR 0x22] @ '');'',
      indent lvl @ ''return 0;'']"

text \<open>The fixed text that \<^verbatim>\<open>generate\<close> emits around the arrays and the instructions.\<close>

definition c_headers :: string where
  "c_headers = join_lines
     [[],
      ''#include <stdio.h>'',
      ''#include <stdlib.h>'',
      ''#include <string.h>'',
      []]"

definition c_platform_nt :: string where
  "c_platform_nt = join_lines
     [[],
      ''#include <windows.h>'',
      ''#define sleep(x) Sleep((x) * 1000)'',
      []]"

definition c_platform_posix :: string where
  "c_platform_posix = join_lines
     [[],
      ''#include <unistd.h>'',
      []]"

definition c_globals :: string where
  "c_globals = join_lines
     [[],
      ''#include <stdint.h>'',
      [],
      ''#define TAPE_SIZE 30000'',
      ''#define MAX_INPUT 1024'',
      [],
      ''// Globals'',
      ''uint8_t tape[TAPE_SIZE] = {0};'',
      ''int ptr = 0;'',
      ''char input_buffer[MAX_INPUT];'',
      [],
      ''// Forward declarations'',
      ''void thor();'',
      ''void hulk(int direct_val, char direct_char);'',
      []]"

definition c_helpers :: string where
  "c_helpers = join_lines
     [[],
      ''// Helper functions'',
      ''void thor() {'',
      ''    printf('' @ [CHR 0x22] @ ''%c'' @ [CHR 0x5C] @ ''n'' @ [CHR 0x22] @ '', tape[ptr]);'',
      ''}'',
      [],
      ''void thornum() {'',
      ''    printf('' @ [CHR 0x22] @ ''%d'' @ [CHR 0x5C] @ ''n'' @ [CHR 0x22] @ '', tape[ptr]);'',
      ''}'',
      [],
      ''void hulk(int direct_val, char direct_char) {'',
      ''    if (direct_val != -1) {'',
      ''        tape[ptr] = direct_val;'',
      ''        return;'',
      ''    }'',
      ''    '',
      ''    if (direct_char != 0) {'',
      ''        tape[ptr] = direct_char;'',
      ''        return;'',
      ''    }'',
      ''    '',
      ''    printf('' @ [CHR 0x22] @ ''Hulk smash input: '' @ [CHR 0x22] @ '');'',
      ''    fflush(stdout);'',
      ''    '',
      ''    int ch = getchar();'',
      ''    if (ch == EOF || ch == '' @ [CHR 0x27] @ [CHR 0x5C] @ ''n'' @ [CHR 0x27] @ '') {'',
      ''        tape[ptr] = 0;  // Set to empty on EOF or newline'',
      ''    } else {'',
      ''        tape[ptr] = ch;'',
      ''        // Eat up rest of the line'',
      ''        while ((ch = getchar()) != '' @ [CHR 0x27] @ [CHR 0x5C] @ ''n'' @ [CHR 0x27] @ '' && ch != EOF);'',
      ''    }'',
      ''}'',
      [],
      ''void blackpanther(uint8_t *target, const char *content) {'',
      ''    if (content != NULL) {'',
      ''        // Direct content provided'',
      ''        int i = 0;'',
      ''        while (content[i] != '' @ [CHR 0x27] @ [CHR 0x5C] @ ''0'' @ [CHR 0x27] @ '') {'',
      ''            target[i] = content[i];'',
      ''            i++;'',
      ''        }'',
      ''        target[i] = 0;  // Null-terminate'',
      ''    } else {'',
      ''        // User input'',
      ''        printf('' @ [CHR 0x22] @ ''Wakanda forever: '' @ [CHR 0x22] @ '');'',
      ''        fflush(stdout);'',
      ''        '',
      ''        fgets(input_buffer, MAX_INPUT, stdin);'',
      ''        size_t len = strlen(input_buffer);'',
      ''        '',
      ''        // Remove trailing newline if present'',
      ''        if (len > 0 && input_buffer[len-1] == '' @ [CHR 0x27] @ [CHR 0x5C] @ ''n'' @ [CHR 0x27] @ '') {'',
      ''            input_buffer[len-1] = '' @ [CHR 0x27] @ [CHR 0x5C] @ ''0'' @ [CHR 0x27] @ '';'',
      ''            len--;'',
      ''        }'',
      ''        '',
      ''        // Copy to target'',
      ''        for (size_t i = 0; i < len; i++) {'',
      ''            target[i] = input_buffer[i];'',
      ''        }'',
      ''        target[len] = 0;  // Null-terminate'',
      ''    }'',
      ''}'',
      [],
      ''void captainamerica(uint8_t *source) {'',
      ''    int i = 0;'',
      ''    while (source[i] != 0) {'',
      ''        putchar(source[i]);'',
      ''        i++;'',
      ''    }'',
      ''    printf('' @ [CHR 0x22] @ [CHR 0x5C] @ ''n'' @ [CHR 0x22] @ '');'',
      ''}'',
      [],
      ''int main() {'',
      []]"

definition c_footer :: string where
  "c_footer = join_lines
     [''    return 0;'',
      ''}'']"

text \<open>
  The declaration of one array of the table: its size when it has one, else 1024.
\<close>

fun array_decl :: "pyval \<times> pyval \<Rightarrow> string" where
  "array_decl (name, array_size) =
     (let size_val = (if array_size \<noteq> PNone then array_size else PInt 1024) in
      ''uint8_t doctorstrange_'' @ py_str name @ ''['' @ py_str size_val @ ''] = {0};'')"

text \<open>The lines of the entry point: every instruction lowered at indentation level 1.\<close>

definition generate_body :: "node list \<Rightarrow> (pyval \<times> pyval) list \<Rightarrow> string list" where
  "generate_body ast ds = concat (map (generate_node 1 ds) ast)"

text \<open>
  \<^verbatim>\<open>generate\<close>: the list \<^verbatim>\<open>self.code\<close> when the method returns, and its text. The flag
  \<open>nt\<close> stands for \<^verbatim>\<open>os.name == 'nt'\<close>.
\<close>

definition generate_code :: "bool \<Rightarrow> node list \<Rightarrow> (pyval \<times> pyval) list \<Rightarrow> string list" where
  "generate_code nt ast ds =
     [c_headers, if nt then c_platform_nt else c_platform_posix, c_globals]
     @ map array_decl ds
     @ [c_helpers]
     @ generate_body ast ds
     @ [c_footer]"

definition generate :: "bool \<Rightarrow> node list \<Rightarrow> (pyval \<times> pyval) list \<Rightarrow> string" where
  "generate nt ast ds = join_lines (generate_code nt ast ds)"

text \<open>
  The part of \<^verbatim>\<open>compile_superhero\<close> between reading the file and writing the generated
  text: lexer, parser, generator.
\<close>

definition compile_source :: "bool \<Rightarrow> string \<Rightarrow> error + string" where
  "compile_source nt source_code =
     (case tokenize source_code of
        Inl e \<Rightarrow> Inl e
      | Inr tokens \<Rightarrow>
          (case parse tokens of
             Inl e \<Rightarrow> Inl e
           | Inr (ast, st) \<Rightarrow> Inr (generate nt ast (doctorstranges st))))"

text \<open>
  The lines that \<^verbatim>\<open>compile_superhero\<close> places between the helper text and the closing
  text of the generated source (the body of the entry point), and the array declarations
  it places before the helper text.
\<close>

definition entry_point :: "string \<Rightarrow> error + string list" where
  "entry_point source_code =
     (case tokenize source_code of
        Inl e \<Rightarrow> Inl e
      | Inr tokens \<Rightarrow>
          (case parse tokens of
             Inl e \<Rightarrow> Inl e
           | Inr (ast, st) \<Rightarrow> Inr (generate_body ast (doctorstranges st))))"


text \<open>
  The instruction sequence built for a source text, and the tables after the first pass.
\<close>

definition instructions :: "string \<Rightarrow> error + node list" where
  "instructions source_code =
     (case tokenize source_code of
        Inl e \<Rightarrow> Inl e
      | Inr tokens \<Rightarrow> map_sum id fst (parse tokens))"

definition resolve :: "string \<Rightarrow> error + parser_tables" where
  "resolve source_code =
     (case tokenize source_code of
        Inl e \<Rightarrow> Inl e
      | Inr tokens \<Rightarrow> first_pass tokens init_tables)"

section \<open>The resolver's label step\<close>

text \<open>
  Claim C1. In the first pass a label keyword followed by an identifier adds the identifier,
  without a trailing colon, to the label table, and the claim says the scan then resumes
  exactly two tokens later. The code adds 2 to the position and then falls into the
  \<^verbatim>\<open>i += 1\<close> that closes the loop body, so the scan resumes three tokens later: the token
  after the name is never examined. In \<^verbatim>\<open>falcon a\<close>, \<^verbatim>\<open>falcon b\<close> on two lines the
  second label keyword is that token, and \<open>b\<close> never reaches the table.
\<close>

theorem first_pass_label_resumes_three_tokens_later:
  "first_pass
     (\<lparr>ttype = FALCON, tvalue = v, line_number = l, indentation = i\<rparr>
      # \<lparr>ttype = IDENTIFIER, tvalue = PStr s, line_number = l1, indentation = i1\<rparr>
      # third # rest) st
   = first_pass rest
       (st\<lparr>labels := insert (PStr (if suffix '':'' s then butlast s else s)) (labels st)\<rparr>)
   \<and> map_sum id labels (resolve ''falcon a\<newline>falcon b'') = Inr {PStr ''a''}"
proof
  show "first_pass
     (\<lparr>ttype = FALCON, tvalue = v, line_number = l, indentation = i\<rparr>
      # \<lparr>ttype = IDENTIFIER, tvalue = PStr s, line_number = l1, indentation = i1\<rparr>
      # third # rest) st
   = first_pass rest
       (st\<lparr>labels := insert (PStr (if suffix '':'' s then butlast s else s)) (labels st)\<rparr>)"
    by simp
next
  show "map_sum id labels (resolve ''falcon a\<newline>falcon b'') = Inr {PStr ''a''}"
    by code_simp
qed

section \<open>Conditional jumps with absent parts\<close>

text \<open>
  Claim C2, as stated: a conditional jump built with an absent operator or operand is
  refused by code generation and not lowered. It is false: the source text
  \<^verbatim>\<open>spiderman\<close> alone builds the instruction with every part absent, and the generator
  lowers it to a conditional statement.
\<close>

theorem spiderman_absent_parts_counterexample:
  "instructions ''spiderman'' = Inr [Spiderman PNone PNone PNone PNone]
   \<and> entry_point ''spiderman'' =
       Inr [''    if (None None None) {'', ''        goto None;'', ''    }'']"
  by code_simp

text \<open>
  Claim C2, amended: code generation never refuses a conditional jump. Whatever its parts
  are, it emits the three lines of a conditional statement, and an absent target, operand
  or operator appears in them as the text \<^verbatim>\<open>None\<close>; the builder produces such an
  instruction from a conditional-jump keyword with nothing after it.
\<close>

theorem spiderman_always_lowered:
  "generate_node lvl ds (Spiderman target left op right) =
     [indent lvl @ ''if (''
        @ (if left = PStr ''vision'' then ''tape[ptr]'' else py_str left)
        @ '' '' @ py_str op @ '' ''
        @ (if right = PStr ''empty'' then ''0''
           else if right = PStr ''vision'' then ''tape[ptr]'' else py_str right)
        @ '') {'',
      indent lvl @ ''    goto '' @ py_str target @ '';'',
      indent lvl @ ''}'']
   \<and> generate_node lvl ds (Spiderman PNone PNone PNone PNone) =
     [indent lvl @ ''if (None None None) {'',
      indent lvl @ ''    goto None;'',
      indent lvl @ ''}'']
   \<and> parse_statement fl [\<lparr>ttype = SPIDERMAN, tvalue = v, line_number = l, indentation = i\<rparr>]
       = Inr (Some (Spiderman PNone PNone PNone PNone), [])"
  by simp

section \<open>Relational operators\<close>

text \<open>
  Claim C3, as stated: lexing \<^verbatim>\<open><>\<close> fails with an invalid-operator error. It is false:
  the lexer takes a second character into an operator only when that character is
  \<^verbatim>\<open>=\<close>, so \<^verbatim>\<open><>\<close> is the two operators \<^verbatim>\<open><\<close> and \<^verbatim>\<open>>\<close>.
\<close>

theorem lex_less_greater_counterexample:
  "tokenize ''<>'' =
     Inr [\<lparr>ttype = OPERATOR, tvalue = PStr ''<'', line_number = 1, indentation = Some 0\<rparr>,
          \<lparr>ttype = OPERATOR, tvalue = PStr ''>'', line_number = 1, indentation = None\<rparr>]"
  by code_simp

text \<open>
  Claim C3, amended: where the next character is not \<^verbatim>\<open>=\<close>, \<^verbatim>\<open><>\<close> lexes as the two
  operator tokens \<^verbatim>\<open><\<close> and \<^verbatim>\<open>>\<close>, a bare \<^verbatim>\<open>=\<close> lexes as the operator token
  \<^verbatim>\<open>==\<close>, and \<^verbatim>\<open>!\<close> is the spelling that fails with the invalid-operator error of its
  line. Each of \<^verbatim>\<open>>=\<close>, \<^verbatim>\<open><=\<close>, \<^verbatim>\<open>==\<close>, \<^verbatim>\<open>!=\<close> lexes as one operator token of that
  text, so \<^verbatim>\<open>=\<close> and \<^verbatim>\<open>==\<close> give the same token.
\<close>

theorem operator_lexing:
  assumes "\<not> prefix ''='' rest"
  shows "scan_line n (''<>'' @ rest) acc =
           scan_line n rest
             (acc @ [Token OPERATOR (PStr ''<'') n, Token OPERATOR (PStr ''>'') n])
    \<and> scan_line n (''!'' @ rest) acc = Inl (InvalidOperator ''!'' n)
    \<and> scan_line n (''='' @ rest) acc = scan_line n rest (acc @ [Token OPERATOR (PStr ''=='') n])
    \<and> scan_line n (''=='' @ after) acc = scan_line n after (acc @ [Token OPERATOR (PStr ''=='') n])
    \<and> scan_line n (''>='' @ after) acc = scan_line n after (acc @ [Token OPERATOR (PStr ''>='') n])
    \<and> scan_line n (''<='' @ after) acc = scan_line n after (acc @ [Token OPERATOR (PStr ''<='') n])
    \<and> scan_line n (''!='' @ after) acc = scan_line n after (acc @ [Token OPERATOR (PStr ''!='') n])"
  using assms
  by (cases rest) (simp_all add: isspace_def isdigit_def isalpha_def operators_def)

theorem operator_lexing_witness:
  "\<not> prefix ''='' '' 0''
   \<and> scan_line 1 (''<>'' @ '' 0'') [] =
       Inr [Token OPERATOR (PStr ''<'') 1, Token OPERATOR (PStr ''>'') 1, Token NUMBER (PInt 0) 1]
   \<and> scan_line 1 (''!'' @ '' 0'') [] = Inl (InvalidOperator ''!'' 1)
   \<and> scan_line 1 (''='' @ '' 0'') [] = Inr [Token OPERATOR (PStr ''=='') 1, Token NUMBER (PInt 0) 1]
   \<and> scan_line 1 (''=='' @ '' 0'') [] = Inr [Token OPERATOR (PStr ''=='') 1, Token NUMBER (PInt 0) 1]"
proof -
  have h: "\<not> prefix ''='' '' 0''" by simp
  have r: "scan_line 1 '' 0'' ts = Inr (ts @ [Token NUMBER (PInt 0) 1])" for ts
    by (simp add: isspace_def isdigit_def int_of_digits_def digit_val_def)
  note t = operator_lexing [OF h, of 1 "[]" "'' 0''"]
  have a: "scan_line 1 (''<>'' @ '' 0'') [] =
       Inr [Token OPERATOR (PStr ''<'') 1, Token OPERATOR (PStr ''>'') 1, Token NUMBER (PInt 0) 1]"
    unfolding conjunct1 [OF t] r by simp
  have b: "scan_line 1 (''!'' @ '' 0'') [] = Inl (InvalidOperator ''!'' 1)"
    by (rule conjunct1 [OF conjunct2 [OF t]])
  have c: "scan_line 1 (''='' @ '' 0'') [] = Inr [Token OPERATOR (PStr ''=='') 1, Token NUMBER (PInt 0) 1]"
    unfolding conjunct1 [OF conjunct2 [OF conjunct2 [OF t]]] r by simp
  have d: "scan_line 1 (''=='' @ '' 0'') [] = Inr [Token OPERATOR (PStr ''=='') 1, Token NUMBER (PInt 0) 1]"
    unfolding conjunct1 [OF conjunct2 [OF conjunct2 [OF conjunct2 [OF t]]]] r by simp
  from h a b c d show ?thesis by blast
qed

section \<open>Reading input\<close>

text \<open>
  Claim C4, as stated: for a read-input instruction with a string operand the generated
  code uses only the first character of the string. It is false: the whole string is
  placed between the single quotes of the call, so \<^verbatim>\<open>hulk "abc"\<close> and
  \<^verbatim>\<open>hulk "a"\<close> generate different code.
\<close>

theorem hulk_string_counterexample:
  "entry_point (''hulk '' @ [CHR 0x22] @ ''abc'' @ [CHR 0x22]) =
     Inr [''    hulk(-1, '' @ [CHR 0x27] @ ''abc'' @ [CHR 0x27] @ '');'']
   \<and> entry_point (''hulk '' @ [CHR 0x22] @ ''abc'' @ [CHR 0x22]) \<noteq>
       entry_point (''hulk '' @ [CHR 0x22] @ ''a'' @ [CHR 0x22])"
  by code_simp

text \<open>
  Claim C4, amended: a read-input keyword followed by a string or an integer builds the
  instruction with that one operand, and alone it builds the instruction with none. For a
  string operand the generated line is the call \<^verbatim>\<open>hulk(-1, '...')\<close> with the whole
  text of the string, unchanged, between the single quotes; for an integer operand \<open>i\<close>
  it is \<^verbatim>\<open>hulk(i, 0)\<close>; with no operand it is \<^verbatim>\<open>hulk(-1, 0)\<close>, the call on which the
  helper reads interactively.
\<close>

theorem hulk_lowering:
  "generate_node lvl ds (Hulk (PStr s # others)) =
     [indent lvl @ ''hulk(-1, '' @ [CHR 0x27] @ s @ [CHR 0x27] @ '');'']
   \<and> generate_node lvl ds (Hulk (PInt k # others)) =
     [indent lvl @ ''hulk('' @ str_of_int k @ '', 0);'']
   \<and> generate_node lvl ds (Hulk []) = [indent lvl @ ''hulk(-1, 0);'']
   \<and> parse_statement fl
       (\<lparr>ttype = HULK, tvalue = v, line_number = l, indentation = i\<rparr>
        # \<lparr>ttype = STRING, tvalue = PStr s, line_number = l1, indentation = i1\<rparr> # rest)
       = Inr (Some (Hulk [PStr s]), rest)
   \<and> parse_statement fl
       (\<lparr>ttype = HULK, tvalue = v, line_number = l, indentation = i\<rparr>
        # \<lparr>ttype = NUMBER, tvalue = PInt k, line_number = l1, indentation = i1\<rparr> # rest)
       = Inr (Some (Hulk [PInt k]), rest)
   \<and> parse_statement fl [\<lparr>ttype = HULK, tvalue = v, line_number = l, indentation = i\<rparr>]
       = Inr (Some (Hulk []), [])"
  by simp

section \<open>Conditional jumps against zero\<close>

text \<open>
  Claim C7. A conditional jump whose left operand is the current-cell marker and whose
  right operand is the integer 0 is lowered to a conditional that compares the cell at the
  cursor with the literal 0, for every operator and target; with the empty marker in
  place of 0 the generated lines are the same. The builder produces the two instructions
  from the two spellings.
\<close>

theorem spiderman_zero_and_empty_lower_alike:
  "generate_node lvl ds (Spiderman target (PStr ''vision'') op (PInt 0)) =
     [indent lvl @ ''if (tape[ptr] '' @ py_str op @ '' 0) {'',
      indent lvl @ ''    goto '' @ py_str target @ '';'',
      indent lvl @ ''}'']
   \<and> generate_node lvl ds (Spiderman target (PStr ''vision'') op (PStr ''empty'')) =
       generate_node lvl ds (Spiderman target (PStr ''vision'') op (PInt 0))
   \<and> parse_statement fl
       (\<lparr>ttype = SPIDERMAN, tvalue = v, line_number = l, indentation = i\<rparr>
        # \<lparr>ttype = IDENTIFIER, tvalue = target, line_number = l1, indentation = i1\<rparr>
        # \<lparr>ttype = VISION, tvalue = v2, line_number = l2, indentation = i2\<rparr>
        # \<lparr>ttype = OPERATOR, tvalue = op, line_number = l3, indentation = i3\<rparr>
        # \<lparr>ttype = NUMBER, tvalue = PInt 0, line_number = l4, indentation = i4\<rparr> # rest)
       = Inr (Some (Spiderman target (PStr ''vision'') op (PInt 0)), rest)
   \<and> parse_statement fl
       (\<lparr>ttype = SPIDERMAN, tvalue = v, line_number = l, indentation = i\<rparr>
        # \<lparr>ttype = IDENTIFIER, tvalue = target, line_number = l1, indentation = i1\<rparr>
        # \<lparr>ttype = VISION, tvalue = v2, line_number = l2, indentation = i2\<rparr>
        # \<lparr>ttype = OPERATOR, tvalue = op, line_number = l3, indentation = i3\<rparr>
        # \<lparr>ttype = EMPTY, tvalue = v4, line_number = l4, indentation = i4\<rparr> # rest)
       = Inr (Some (Spiderman target (PStr ''vision'') op (PStr ''empty'')), rest)"
  by (simp add: str_of_int_def digit_char_def)

section \<open>Integer operands of add and subtract\<close>

text \<open>
  Claim C10. In the lowering of add and subtract an integer literal on the left is a tape
  address: it gives the tape cell at that offset, the same text as a cell reference on the
  left gives. An integer literal on the right gives the literal itself, and only a cell
  reference on the right gives a tape cell. The builder marks a number operand as not a
  cell and a cell-reference operand as a cell.
\<close>

theorem add_sub_integer_operands:
  "generate_node lvl ds (Add (PInt n) (PInt m) False False) =
     [indent lvl @ ''tape['' @ str_of_int n @ ''] += '' @ str_of_int m @ '';'']
   \<and> generate_node lvl ds (Add (PInt n) (PInt m) True False) =
       generate_node lvl ds (Add (PInt n) (PInt m) False False)
   \<and> generate_node lvl ds (Add (PInt n) (PInt m) False True) =
     [indent lvl @ ''tape['' @ str_of_int n @ ''] += tape['' @ str_of_int m @ ''];'']
   \<and> generate_node lvl ds (Sub (PInt n) (PInt m) False False) =
     [indent lvl @ ''tape['' @ str_of_int n @ ''] -= '' @ str_of_int m @ '';'']
   \<and> generate_node lvl ds (Sub (PInt n) (PInt m) True False) =
       generate_node lvl ds (Sub (PInt n) (PInt m) False False)
   \<and> generate_node lvl ds (Sub (PInt n) (PInt m) False True) =
     [indent lvl @ ''tape['' @ str_of_int n @ ''] -= tape['' @ str_of_int m @ ''];'']
   \<and> parse_statement fl
       (\<lparr>ttype = ADD, tvalue = v, line_number = l, indentation = i\<rparr>
        # \<lparr>ttype = NUMBER, tvalue = PInt n, line_number = l1, indentation = i1\<rparr>
        # \<lparr>ttype = NUMBER, tvalue = PInt m, line_number = l2, indentation = i2\<rparr> # rest)
       = Inr (Some (Add (PInt n) (PInt m) False False), rest)
   \<and> parse_statement fl
       (\<lparr>ttype = SUB, tvalue = v, line_number = l, indentation = i\<rparr>
        # \<lparr>ttype = CELL_REF, tvalue = PInt n, line_number = l1, indentation = i1\<rparr>
        # \<lparr>ttype = CELL_REF, tvalue = PInt m, line_number = l2, indentation = i2\<rparr> # rest)
       = Inr (Some (Sub (PInt n) (PInt m) True True), rest)"
  by simp

section \<open>Block comments\<close>

text \<open>
  A line is blank exactly when all its characters are white space, so a line that holds one
  of the two comment markers is not blank. With that, each line of a region moves the line
  loop one line on and leaves the tokens as they are.
\<close>

lemma strip_empty_iff: "strip l = [] \<longleftrightarrow> list_all isspace l"
proof -
  have "dropWhile isspace (rev (dropWhile isspace l)) = [] \<longleftrightarrow> dropWhile isspace l = []"
  proof
    assume a: "dropWhile isspace (rev (dropWhile isspace l)) = []"
    show "dropWhile isspace l = []"
    proof (rule ccontr)
      assume n: "dropWhile isspace l \<noteq> []"
      then have "\<not> isspace (hd (dropWhile isspace l))" by (rule hd_dropWhile)
      moreover have "hd (dropWhile isspace l) \<in> set (rev (dropWhile isspace l))" using n by simp
      moreover from a have "\<forall>x\<in>set (rev (dropWhile isspace l)). isspace x"
        by (simp only: dropWhile_eq_Nil_conv)
      ultimately show False by blast
    qed
  next
    assume e: "dropWhile isspace l = []"
    show "dropWhile isspace (rev (dropWhile isspace l)) = []" unfolding e by simp
  qed
  moreover have "strip l = [] \<longleftrightarrow> dropWhile isspace (rev (dropWhile isspace l)) = []"
    by (simp add: strip_def)
  moreover have "dropWhile isspace l = [] \<longleftrightarrow> list_all isspace l"
    by (simp add: dropWhile_eq_Nil_conv list_all_iff)
  ultimately show ?thesis by simp
qed

lemma contains_set: "contains sub l \<Longrightarrow> set sub \<subseteq> set l"
proof (induction l)
  case Nil
  then show ?case by simp
next
  case (Cons a l)
  from Cons.prems have "prefix sub (a # l) \<or> contains sub l" by simp
  then show ?case
  proof
    assume "prefix sub (a # l)"
    then show ?thesis by (rule set_mono_prefix)
  next
    assume "contains sub l"
    then have "set sub \<subseteq> set l" by (rule Cons.IH)
    then show ?thesis by auto
  qed
qed

lemma closing_marker_not_blank: "contains ''*heroes'' l \<Longrightarrow> strip l \<noteq> []"
proof
  assume c: "contains ''*heroes'' l" and s: "strip l = []"
  from c have "set ''*heroes'' \<subseteq> set l" by (rule contains_set)
  then have "CHR ''*'' \<in> set l" by simp
  moreover from s have "\<forall>x\<in>set l. isspace x" by (simp add: strip_empty_iff list_all_iff)
  ultimately have "isspace CHR ''*''" by blast
  then show False by (simp add: isspace_def)
qed

lemma opening_marker_not_blank: "contains ''heroes*'' l \<Longrightarrow> strip l \<noteq> []"
proof
  assume c: "contains ''heroes*'' l" and s: "strip l = []"
  from c have "set ''heroes*'' \<subseteq> set l" by (rule contains_set)
  then have "CHR ''*'' \<in> set l" by simp
  moreover from s have "\<forall>x\<in>set l. isspace x" by (simp add: strip_empty_iff list_all_iff)
  ultimately have "isspace CHR ''*''" by blast
  then show False by (simp add: isspace_def)
qed



lemma lex_lines_comment_step:
  "\<not> contains ''*heroes'' l \<Longrightarrow>
   lex_lines True n (l # ls) tokens = lex_lines True (n + 1) ls tokens"
  by simp

lemma lex_lines_close_step:
  "contains ''*heroes'' l \<Longrightarrow>
   lex_lines True n (l # ls) tokens = lex_lines False (n + 1) ls tokens"
  using closing_marker_not_blank [of l] by simp

lemma lex_lines_open_step:
  "contains ''heroes*'' l \<Longrightarrow> \<not> contains ''*heroes'' l \<Longrightarrow>
   lex_lines False n (l # ls) tokens = lex_lines True (n + 1) ls tokens"
  using opening_marker_not_blank [of l] by simp

lemma lex_lines_inside_comment:
  "\<forall>l\<in>set inside. \<not> contains ''*heroes'' l \<Longrightarrow>
   lex_lines True n (inside @ rest) tokens = lex_lines True (n + length inside) rest tokens"
proof (induction inside arbitrary: n)
  case Nil
  then show ?case by simp
next
  case (Cons l inside)
  from Cons.prems have nl: "\<not> contains ''*heroes'' l" by simp
  have "lex_lines True n ((l # inside) @ rest) tokens = lex_lines True (n + 1) (inside @ rest) tokens"
    using lex_lines_comment_step [OF nl] by simp
  also have "\<dots> = lex_lines True (n + 1 + length inside) rest tokens"
    using Cons.prems by (intro Cons.IH) simp
  finally show ?case by simp
qed

text \<open>
  Claim C8. A block-comment region begins at a line that holds the opening marker and not
  the closing marker, read while no region is open, and ends at the first later line that
  holds the closing marker. No line of the region produces a token, the opening line and
  the closing line included, whatever text stands before the opening marker or after the
  closing marker: the token list after the region is the one before it, and lexing goes on
  with the line after the closing line and with that line's number. A region that is never
  closed runs to the end of the text.
\<close>

theorem block_comment_region_skipped:
  assumes "contains ''heroes*'' opening" and "\<not> contains ''*heroes'' opening"
    and "\<forall>l\<in>set inside. \<not> contains ''*heroes'' l"
    and "contains ''*heroes'' closing"
  shows "lex_lines False n (opening # inside @ closing # after) tokens =
           lex_lines False (n + length inside + 2) after tokens
         \<and> lex_lines False n (opening # inside) tokens = Inr tokens"
proof
  have "lex_lines False n (opening # inside @ closing # after) tokens =
        lex_lines True (n + 1) (inside @ closing # after) tokens"
    using assms(1,2) by (rule lex_lines_open_step)
  also have "\<dots> = lex_lines True (n + 1 + length inside) (closing # after) tokens"
    using assms(3) by (rule lex_lines_inside_comment)
  also have "\<dots> = lex_lines False (n + 1 + length inside + 1) after tokens"
    using assms(4) by (rule lex_lines_close_step)
  finally show "lex_lines False n (opening # inside @ closing # after) tokens =
           lex_lines False (n + length inside + 2) after tokens"
    by (simp add: add.commute add.left_commute)
next
  have "lex_lines False n (opening # inside) tokens = lex_lines True (n + 1) inside tokens"
    using assms(1,2) by (rule lex_lines_open_step)
  also have "\<dots> = lex_lines True (n + 1 + length inside) [] tokens"
    using lex_lines_inside_comment [OF assms(3), of "n + 1" "[]" tokens] by simp
  finally show "lex_lines False n (opening # inside) tokens = Inr tokens" by simp
qed

theorem block_comment_region_skipped_witness:
  "contains ''heroes*'' ''thor heroes* note''
   \<and> \<not> contains ''*heroes'' ''thor heroes* note''
   \<and> list_all (\<lambda>l. \<not> contains ''*heroes'' l) [''ironman'', [], ''  batman'']
   \<and> contains ''*heroes'' ''end *heroes thor''
   \<and> lex_lines False 1
        (''thor heroes* note'' # [''ironman'', [], ''  batman''] @ ''end *heroes thor'' # [''loki'']) [] =
       Inr [\<lparr>ttype = LOKI, tvalue = PStr ''loki'', line_number = 6, indentation = Some 0\<rparr>]
   \<and> lex_lines False 1 (''thor heroes* note'' # [''ironman'', [], ''  batman'']) [] = Inr []"
proof -
  have h1: "contains ''heroes*'' ''thor heroes* note''" by simp
  have h2: "\<not> contains ''*heroes'' ''thor heroes* note''" by simp
  have h3: "\<forall>l\<in>set [''ironman'', [], ''  batman'']. \<not> contains ''*heroes'' l" by simp
  have h4: "contains ''*heroes'' ''end *heroes thor''" by simp
  have r: "lex_lines False (1 + length [''ironman'', [], ''  batman''] + 2) [''loki''] [] =
      Inr [\<lparr>ttype = LOKI, tvalue = PStr ''loki'', line_number = 6, indentation = Some 0\<rparr>]"
    by code_simp
  note t = block_comment_region_skipped [OF h1 h2 h3 h4, of 1 "[''loki'']" "[]"]
  have a: "lex_lines False 1
        (''thor heroes* note'' # [''ironman'', [], ''  batman''] @ ''end *heroes thor'' # [''loki'']) [] =
       Inr [\<lparr>ttype = LOKI, tvalue = PStr ''loki'', line_number = 6, indentation = Some 0\<rparr>]"
    by (rule trans [OF conjunct1 [OF t] r])
  have b: "lex_lines False 1 (''thor heroes* note'' # [''ironman'', [], ''  batman'']) [] = Inr []"
    by (rule conjunct2 [OF t])
  from h3 have h3': "list_all (\<lambda>l. \<not> contains ''*heroes'' l) [''ironman'', [], ''  batman'']"
    by (simp only: list_all_iff)
  from h1 h2 h3' h4 a b show ?thesis by blast
qed

section \<open>String literals\<close>



















section \<open>Array declarations\<close>














section \<open>Labels and jumps\<close>

text \<open>
  No statement takes a label keyword or a jump keyword as an operand, so the statement that
  starts before such a keyword ends at it or earlier, and the statement loop builds the
  instruction of every label and jump keyword of the sequence.
\<close>

lemma accept_stops:
  assumes "accept ty d (a @ kw # b) = (v, rest)" and "ttype kw \<noteq> ty"
  shows "\<exists>a'. rest = a' @ kw # b \<and> length a' \<le> length a"
  using assms by (cases a) (auto split: if_splits)

lemma spiderman_left_stops:
  assumes "spiderman_left (a @ kw # b) = (v, rest)"
    and "ttype kw = FALCON \<or> ttype kw = HAWKEYE"
  shows "\<exists>a'. rest = a' @ kw # b \<and> length a' \<le> length a"
  using assms by (cases a) (auto split: if_splits)

lemma spiderman_right_stops:
  assumes "spiderman_right (a @ kw # b) = (v, rest)"
    and "ttype kw = FALCON \<or> ttype kw = HAWKEYE"
  shows "\<exists>a'. rest = a' @ kw # b \<and> length a' \<le> length a"
  using assms by (cases a) (auto split: if_splits)

lemma arith_left_stops:
  assumes "arith_left (a @ kw # b) = (v, rest)"
    and "ttype kw = FALCON \<or> ttype kw = HAWKEYE"
  shows "\<exists>a'. rest = a' @ kw # b \<and> length a' \<le> length a"
  using assms by (cases a) (auto split: if_splits)

lemma arith_right_stops:
  assumes "arith_right (a @ kw # b) = (v, rest)"
    and "ttype kw = FALCON \<or> ttype kw = HAWKEYE"
  shows "\<exists>a'. rest = a' @ kw # b \<and> length a' \<le> length a"
  using assms by (cases a) (auto split: if_splits)

lemma tl_stops:
  assumes "check (a @ kw # b) ty" and "ttype kw \<noteq> ty"
  shows "\<exists>a'. tl (a @ kw # b) = a' @ kw # b \<and> length a' \<le> length a"
  using assms by (cases a) auto

lemma parse_statement_stops:
  assumes "parse_statement fl (tok # a @ kw # b) = Inr (nd, rest)"
    and "ttype kw = FALCON \<or> ttype kw = HAWKEYE"
  shows "\<exists>a'. rest = a' @ kw # b \<and> length a' \<le> length a"
proof -
  have kw: "ttype kw \<noteq> IDENTIFIER" "ttype kw \<noteq> NUMBER" "ttype kw \<noteq> STRING"
    "ttype kw \<noteq> INTO" "ttype kw \<noteq> OPERATOR"
    using assms(2) by auto
  have same: "\<exists>a'. a @ kw # b = a' @ kw # b \<and> length a' \<le> length a" by auto
  show ?thesis
    using assms kw same
    by (auto simp: Let_def split: if_splits prod.splits sum.splits
        dest!: accept_stops spiderman_left_stops spiderman_right_stops
               arith_left_stops arith_right_stops tl_stops)
qed

lemma parse_loop_Cons:
  assumes "parse_loop fl (t # ts) = Inr nodes"
  shows "\<exists>s rest blocks. parse_statement fl (t # ts) = Inr (s, rest)
           \<and> parse_loop fl rest = Inr blocks
           \<and> nodes = (case s of None \<Rightarrow> blocks | Some x \<Rightarrow> x # blocks)"
  using assms by (auto split: sum.splits simp del: parse_statement.simps)

lemma parse_statement_keyword:
  assumes "parse_statement fl (kw # b) = Inr (s, rest)"
    and "ttype kw = FALCON \<or> ttype kw = HAWKEYE"
  shows "s \<noteq> None"
  using assms by (auto simp: Let_def split: if_splits prod.splits sum.splits)

lemma parse_loop_reaches:
  assumes "parse_loop fl (a @ kw # b) = Inr nodes"
    and "ttype kw = FALCON \<or> ttype kw = HAWKEYE"
  shows "\<exists>nd rest. parse_statement fl (kw # b) = Inr (Some nd, rest) \<and> nd \<in> set nodes"
  using assms(1)
proof (induction "length a" arbitrary: a nodes rule: less_induct)
  case less
  show ?case
  proof (cases a)
    case Nil
    with less.prems have "parse_loop fl (kw # b) = Inr nodes" by simp
    from parse_loop_Cons [OF this] obtain s rest blocks where
      ps: "parse_statement fl (kw # b) = Inr (s, rest)"
      and nodes: "nodes = (case s of None \<Rightarrow> blocks | Some x \<Rightarrow> x # blocks)"
      by blast
    from parse_statement_keyword [OF ps assms(2)] obtain nd where s: "s = Some nd" by auto
    from ps nodes show ?thesis unfolding s by (auto simp del: parse_statement.simps)
  next
    case (Cons t a0)
    with less.prems have "parse_loop fl (t # a0 @ kw # b) = Inr nodes" by simp
    from parse_loop_Cons [OF this] obtain s rest blocks where
      ps: "parse_statement fl (t # a0 @ kw # b) = Inr (s, rest)"
      and pl: "parse_loop fl rest = Inr blocks"
      and nodes: "nodes = (case s of None \<Rightarrow> blocks | Some x \<Rightarrow> x # blocks)"
      by blast
    from parse_statement_stops [OF ps assms(2)] obtain a' where
      rest: "rest = a' @ kw # b" and len: "length a' \<le> length a0" by blast
    have l: "length a' < length a" using len unfolding Cons by simp
    from less.hyps [OF l pl [unfolded rest]] obtain nd r where
      "parse_statement fl (kw # b) = Inr (Some nd, r)" and "nd \<in> set blocks" by blast
    moreover have "set blocks \<subseteq> set nodes" unfolding nodes by (cases s) auto
    ultimately show ?thesis by blast
  qed
qed

lemma body_line:
  "nd \<in> set ast \<Longrightarrow> ln \<in> set (generate_node 1 ds nd) \<Longrightarrow> ln \<in> set (generate_body ast ds)"
  unfolding generate_body_def by auto

text \<open>
  Claim C6. Where a token sequence that parses holds a label keyword followed by a name
  and a jump keyword followed by the same name, wherever the two stand, the body of the
  entry point holds the label statement of that name, its trailing colon removed if it has
  one, and the jump statement with the name as it is written; for a name without a colon
  the two identifiers are the same text. The source \<^verbatim>\<open>falcon loop:\<close> followed by
  \<^verbatim>\<open>hawkeye loop\<close> generates exactly the label statement \<^verbatim>\<open>loop:\<close> and the jump
  statement \<^verbatim>\<open>goto loop;\<close>.
\<close>

theorem label_and_jump_share_identifier:
  assumes "parse tokens = Inr (ast, st)"
    and "tokens =
           a @ \<lparr>ttype = FALCON, tvalue = v, line_number = n, indentation = i\<rparr>
             # \<lparr>ttype = IDENTIFIER, tvalue = PStr l, line_number = n1, indentation = i1\<rparr> # b"
    and "tokens =
           a' @ \<lparr>ttype = HAWKEYE, tvalue = v', line_number = n', indentation = i'\<rparr>
             # \<lparr>ttype = IDENTIFIER, tvalue = PStr l, line_number = n1', indentation = i1'\<rparr> # b'"
  shows "(if suffix '':'' l then butlast l else l) @ '':'' \<in> set (generate_body ast ds)
       \<and> ''    goto '' @ l @ '';'' \<in> set (generate_body ast ds)
       \<and> entry_point ''falcon loop:\<newline>hawkeye loop'' = Inr [''loop:'', ''    goto loop;'']"
proof (intro conjI)
  from assms(1) have pl: "parse_loop (flashes st) tokens = Inr ast"
    by (auto simp: parse_def split: sum.splits)
  from parse_loop_reaches [OF pl [unfolded assms(2)]]
  have "Falcon (PStr (if suffix '':'' l then butlast l else l)) \<in> set ast" by auto
  then show "(if suffix '':'' l then butlast l else l) @ '':'' \<in> set (generate_body ast ds)"
    by (rule body_line) (simp add: indent_def)
next
  from assms(1) have pl: "parse_loop (flashes st) tokens = Inr ast"
    by (auto simp: parse_def split: sum.splits)
  from parse_loop_reaches [OF pl [unfolded assms(3)]]
  have "Hawkeye (PStr l) \<in> set ast" by auto
  then show "''    goto '' @ l @ '';'' \<in> set (generate_body ast ds)"
    by (rule body_line) (simp add: indent_def)
next
  show "entry_point ''falcon loop:\<newline>hawkeye loop'' = Inr [''loop:'', ''    goto loop;'']"
    by code_simp
qed

theorem label_and_jump_share_identifier_witness:
  "tokenize ''falcon loop:\<newline>thor\<newline>hawkeye loop'' =
     Inr [\<lparr>ttype = FALCON, tvalue = PStr ''falcon'', line_number = 1, indentation = Some 0\<rparr>,
          \<lparr>ttype = IDENTIFIER, tvalue = PStr ''loop'', line_number = 1, indentation = None\<rparr>,
          \<lparr>ttype = IDENTIFIER, tvalue = PStr '':'', line_number = 1, indentation = None\<rparr>,
          \<lparr>ttype = THOR, tvalue = PStr ''thor'', line_number = 2, indentation = Some 0\<rparr>,
          \<lparr>ttype = HAWKEYE, tvalue = PStr ''hawkeye'', line_number = 3, indentation = Some 0\<rparr>,
          \<lparr>ttype = IDENTIFIER, tvalue = PStr ''loop'', line_number = 3, indentation = None\<rparr>]
   \<and> ''loop:'' \<in> set (generate_body [Falcon (PStr ''loop''), Thor, Hawkeye (PStr ''loop'')] [])
   \<and> ''    goto loop;''
       \<in> set (generate_body [Falcon (PStr ''loop''), Thor, Hawkeye (PStr ''loop'')] [])"
proof -
  let ?f = "\<lparr>ttype = FALCON, tvalue = PStr ''falcon'', line_number = 1, indentation = Some 0\<rparr>"
  let ?l1 = "\<lparr>ttype = IDENTIFIER, tvalue = PStr ''loop'', line_number = 1, indentation = None\<rparr>"
  let ?c = "\<lparr>ttype = IDENTIFIER, tvalue = PStr '':'', line_number = 1, indentation = None\<rparr>"
  let ?t = "\<lparr>ttype = THOR, tvalue = PStr ''thor'', line_number = 2, indentation = Some 0\<rparr>"
  let ?h = "\<lparr>ttype = HAWKEYE, tvalue = PStr ''hawkeye'', line_number = 3, indentation = Some 0\<rparr>"
  let ?l3 = "\<lparr>ttype = IDENTIFIER, tvalue = PStr ''loop'', line_number = 3, indentation = None\<rparr>"
  let ?T = "[?f, ?l1, ?c, ?t, ?h, ?l3]"
  let ?ast = "[Falcon (PStr ''loop''), Thor, Hawkeye (PStr ''loop'')]"
  have lx: "tokenize ''falcon loop:\<newline>thor\<newline>hawkeye loop'' = Inr ?T"
    by code_simp
  have p: "parse ?T = Inr (?ast, \<lparr>labels = {PStr ''loop''}, flashes = [], doctorstranges = []\<rparr>)"
    by (simp add: parse_def init_tables_def suffix_to_prefix)
  have e1: "?T = [] @ ?f # ?l1 # [?c, ?t, ?h, ?l3]" by simp
  have e2: "?T = [?f, ?l1, ?c, ?t] @ ?h # ?l3 # []" by simp
  note t = label_and_jump_share_identifier [OF p e1 e2, of "[]"]
  from conjunct1 [OF t] have a: "''loop:'' \<in> set (generate_body ?ast [])"
    by (simp add: suffix_to_prefix)
  from conjunct1 [OF conjunct2 [OF t]] have b: "''    goto loop;'' \<in> set (generate_body ?ast [])"
    by simp
  from lx a b show ?thesis by blast
qed

end
